theory Spec2Isabelle
  imports Main
begin

section \<open>Values and exceptions\<close>

text \<open>
  The renderer of \<^verbatim>\<open>jira.py\<close> takes a value decoded from JSON: \<^verbatim>\<open>None\<close>, a
  boolean, an integer, a string, a list or a dictionary with string keys. A dictionary is
  an association list read with \<open>map_of\<close>; a Python dictionary has each key once.
  Strings are lists of characters; a character stands for one code point below 256.
  Floating-point numbers, code points from 256 on and the interpreter's recursion limit
  are outside the model. Every exception the code can raise is a value of \<open>error\<close>.
\<close>

datatype json =
    JNull
  | JBool bool
  | JInt int
  | JStr string
  | JList "json list"
  | JDict "(string \<times> json) list"

datatype error = AttributeError | TypeError | ValueError | KeyError | IndexError

text \<open>Python's truth value of an object, as \<^verbatim>\<open>not x\<close>, \<^verbatim>\<open>x or y\<close> and \<^verbatim>\<open>if x\<close> test it.\<close>

fun truthy :: "json \<Rightarrow> bool" where
  "truthy JNull = False"
| "truthy (JBool b) = b"
| "truthy (JInt n) = (n \<noteq> 0)"
| "truthy (JStr s) = (s \<noteq> [])"
| "truthy (JList xs) = (xs \<noteq> [])"
| "truthy (JDict kvs) = (kvs \<noteq> [])"

definition py_or :: "json \<Rightarrow> json \<Rightarrow> json" where
  "py_or a b = (if truthy a then a else b)"

text \<open>\<^verbatim>\<open>node.get(key)\<close>: only a dictionary has the method.\<close>

fun dict_get :: "json \<Rightarrow> string \<Rightarrow> error + json" where
  "dict_get (JDict kvs) k = Inr (case map_of kvs k of None \<Rightarrow> JNull | Some v \<Rightarrow> v)"
| "dict_get _ k = Inl AttributeError"

text \<open>\<^verbatim>\<open>node.get(key, default)\<close>.\<close>

fun dict_get_default :: "json \<Rightarrow> string \<Rightarrow> json \<Rightarrow> error + json" where
  "dict_get_default (JDict kvs) k d = Inr (case map_of kvs k of None \<Rightarrow> d | Some v \<Rightarrow> v)"
| "dict_get_default _ k d = Inl AttributeError"

text \<open>\<^verbatim>\<open>node.get(key) or default\<close>.\<close>

definition get_or :: "json \<Rightarrow> string \<Rightarrow> json \<Rightarrow> error + json" where
  "get_or node k d = (case dict_get node k of Inl e \<Rightarrow> Inl e | Inr v \<Rightarrow> Inr (py_or v d))"

text \<open>
  \<^verbatim>\<open>for x in v\<close>: a list gives its elements, a string its characters, a dictionary
  its keys; nothing else is iterable.
\<close>

fun py_iter :: "json \<Rightarrow> error + json list" where
  "py_iter (JList xs) = Inr xs"
| "py_iter (JStr s) = Inr (map (\<lambda>c. JStr [c]) s)"
| "py_iter (JDict kvs) = Inr (map (\<lambda>kv. JStr (fst kv)) kvs)"
| "py_iter _ = Inl TypeError"

text \<open>
  \<^verbatim>\<open>v in {"a", "b"}\<close>: membership in a set hashes the value, and a list or a
  dictionary is not hashable.
\<close>

fun in_str_set :: "json \<Rightarrow> string list \<Rightarrow> error + bool" where
  "in_str_set (JList xs) names = Inl TypeError"
| "in_str_set (JDict kvs) names = Inl TypeError"
| "in_str_set v names = Inr (v \<in> set (map JStr names))"

text \<open>
  \<^verbatim>\<open>content[0]\<close> together with the elements of \<^verbatim>\<open>content[1:]\<close>: a list or a
  string can be indexed, a dictionary has no key 0, nothing else has items.
\<close>

fun py_first_rest :: "json \<Rightarrow> error + json \<times> json list" where
  "py_first_rest (JList []) = Inl IndexError"
| "py_first_rest (JList (x # xs)) = Inr (x, xs)"
| "py_first_rest (JStr []) = Inl IndexError"
| "py_first_rest (JStr (c # cs)) = Inr (JStr [c], map (\<lambda>c. JStr [c]) cs)"
| "py_first_rest (JDict kvs) = Inl KeyError"
| "py_first_rest _ = Inl TypeError"

text \<open>The error-propagating map: a loop body run on each element, in order, until one raises.\<close>

fun mapM :: "('a \<Rightarrow> error + 'b) \<Rightarrow> 'a list \<Rightarrow> error + 'b list" where
  "mapM f [] = Inr []"
| "mapM f (x # xs) =
     (case f x of Inl e \<Rightarrow> Inl e
      | Inr y \<Rightarrow> (case mapM f xs of Inl e \<Rightarrow> Inl e | Inr ys \<Rightarrow> Inr (y # ys)))"

text \<open>
  A \<^verbatim>\<open>for\<close> loop that updates local variables: the body takes the variables and
  the element and returns the variables updated, or raises.
\<close>

fun foldM :: "('s \<Rightarrow> 'a \<Rightarrow> error + 's) \<Rightarrow> 's \<Rightarrow> 'a list \<Rightarrow> error + 's" where
  "foldM f s [] = Inr s"
| "foldM f s (x # xs) = (case f s x of Inl e \<Rightarrow> Inl e | Inr s' \<Rightarrow> foldM f s' xs)"

section \<open>Strings\<close>

definition backslash :: char where "backslash = CHR 0x5C"
definition backtick :: char where "backtick = CHR 0x60"
definition newline :: char where "newline = CHR 0x0A"

text \<open>The code points below 256 for which \<^verbatim>\<open>str.isspace\<close> holds.\<close>

definition is_space :: "char \<Rightarrow> bool" where
  "is_space c = (c \<in> set [CHR 0x09, CHR 0x0A, CHR 0x0B, CHR 0x0C, CHR 0x0D, CHR 0x1C,
     CHR 0x1D, CHR 0x1E, CHR 0x1F, CHR 0x20, CHR 0x85, CHR 0xA0])"

definition lstrip :: "string \<Rightarrow> string" where
  "lstrip s = dropWhile is_space s"

definition rstrip :: "string \<Rightarrow> string" where
  "rstrip s = rev (dropWhile is_space (rev s))"

definition strip :: "string \<Rightarrow> string" where
  "strip s = rstrip (lstrip s)"

text \<open>\<^verbatim>\<open>sep.join(parts)\<close> on strings.\<close>

fun join :: "string \<Rightarrow> string list \<Rightarrow> string" where
  "join sep [] = []"
| "join sep [x] = x"
| "join sep (x # y # ys) = x @ sep @ join sep (y # ys)"

text \<open>\<^verbatim>\<open>sep.join(items)\<close> on values: an item that is not a string raises TypeError.\<close>

fun as_strs :: "json list \<Rightarrow> error + string list" where
  "as_strs [] = Inr []"
| "as_strs (JStr s # vs) = (case as_strs vs of Inl e \<Rightarrow> Inl e | Inr ss \<Rightarrow> Inr (s # ss))"
| "as_strs (_ # vs) = Inl TypeError"

definition py_join :: "string \<Rightarrow> json list \<Rightarrow> error + string" where
  "py_join sep vs = (case as_strs vs of Inl e \<Rightarrow> Inl e | Inr ss \<Rightarrow> Inr (join sep ss))"

text \<open>The line boundaries of \<^verbatim>\<open>str.splitlines\<close> below 256; CR LF is one boundary.\<close>

definition is_linebreak :: "char \<Rightarrow> bool" where
  "is_linebreak c = (c \<in> set [CHR 0x0A, CHR 0x0B, CHR 0x0C, CHR 0x0D, CHR 0x1C, CHR 0x1D,
     CHR 0x1E, CHR 0x85])"

fun splitlines_aux :: "string \<Rightarrow> string \<Rightarrow> string list" where
  "splitlines_aux cur [] = (if cur = [] then [] else [cur])"
| "splitlines_aux cur (c # cs) =
     (if c = CHR 0x0D \<and> cs \<noteq> [] \<and> hd cs = CHR 0x0A then cur # splitlines_aux [] (tl cs)
      else if is_linebreak c then cur # splitlines_aux [] cs
      else splitlines_aux (cur @ [c]) cs)"

definition splitlines :: "string \<Rightarrow> string list" where
  "splitlines s = splitlines_aux [] s"

text \<open>\<^verbatim>\<open>text.replace(c, new)\<close> for a one-character pattern.\<close>

definition replace_char :: "char \<Rightarrow> string \<Rightarrow> string \<Rightarrow> string" where
  "replace_char c new s = concat (map (\<lambda>x. if x = c then new else [x]) s)"

text \<open>Decimal digits of an integer, as \<^verbatim>\<open>str(n)\<close> and an f-string print it.\<close>

fun show_nat :: "nat \<Rightarrow> string" where
  "show_nat n = (if n < 10 then [''0123456789'' ! n]
                 else show_nat (n div 10) @ [''0123456789'' ! (n mod 10)])"

definition show_int :: "int \<Rightarrow> string" where
  "show_int i = (if i < 0 then CHR ''-'' # show_nat (nat (- i)) else show_nat (nat i))"

declare show_nat.simps [simp del]

text \<open>\<^verbatim>\<open>repr\<close> of a string: the quote is chosen by the content, and what is not printable is escaped.\<close>

definition hex2 :: "nat \<Rightarrow> string" where
  "hex2 n = [''0123456789abcdef'' ! (n div 16), ''0123456789abcdef'' ! (n mod 16)]"

definition is_printable :: "char \<Rightarrow> bool" where
  "is_printable c = (let n = (of_char c :: nat) in (32 \<le> n \<and> n < 127) \<or> (161 \<le> n \<and> n \<noteq> 173))"

definition repr_char :: "char \<Rightarrow> char \<Rightarrow> string" where
  "repr_char q c =
     (if c = q \<or> c = backslash then [backslash, c]
      else if c = CHR 0x09 then [backslash, CHR ''t'']
      else if c = CHR 0x0A then [backslash, CHR ''n'']
      else if c = CHR 0x0D then [backslash, CHR ''r'']
      else if \<not> is_printable c then backslash # CHR ''x'' # hex2 (of_char c)
      else [c])"

definition repr_str :: "string \<Rightarrow> string" where
  "repr_str s =
     (let q = (if CHR 0x27 \<in> set s \<and> CHR 0x22 \<notin> set s then CHR 0x22 else CHR 0x27)
      in q # concat (map (repr_char q) s) @ [q])"

fun py_repr :: "json \<Rightarrow> string" where
  "py_repr JNull = ''None''"
| "py_repr (JBool b) = (if b then ''True'' else ''False'')"
| "py_repr (JInt n) = show_int n"
| "py_repr (JStr s) = repr_str s"
| "py_repr (JList xs) = ''['' @ join '', '' (map py_repr xs) @ '']''"
| "py_repr (JDict kvs) =
     ''{'' @ join '', '' (map (\<lambda>kv. repr_str (fst kv) @ '': '' @ py_repr (snd kv)) kvs) @ ''}''"

text \<open>\<^verbatim>\<open>str(v)\<close>, which is also what an f-string field prints.\<close>

definition py_str :: "json \<Rightarrow> string" where
  "py_str v = (case v of JStr s \<Rightarrow> s | _ \<Rightarrow> py_repr v)"

text \<open>
  \<^verbatim>\<open>int(v)\<close>: an integer is itself, a boolean 0 or 1, a string is parsed or raises
  ValueError, anything else raises TypeError. In a string, \<^verbatim>\<open>int\<close> skips surrounding
  white space, which for it is tab to carriage return, the space, and the code points
  0x85 and 0xA0 (not 0x1C to 0x1F, which \<^verbatim>\<open>str.strip\<close> removes); then come a sign
  and digits with single underscores between them. More than 4300 digits raise
  ValueError, the interpreter's default limit for the conversion.
\<close>

definition is_int_space :: "char \<Rightarrow> bool" where
  "is_int_space c = (c \<in> set [CHR 0x09, CHR 0x0A, CHR 0x0B, CHR 0x0C, CHR 0x0D, CHR 0x20,
     CHR 0x85, CHR 0xA0])"

definition is_digit :: "char \<Rightarrow> bool" where
  "is_digit c = (c \<in> set ''0123456789'')"

definition digit_val :: "char \<Rightarrow> int" where
  "digit_val c = int (of_char c) - 48"

fun parse_digits :: "bool \<Rightarrow> int \<Rightarrow> string \<Rightarrow> int option" where
  "parse_digits prev acc [] = (if prev then Some acc else None)"
| "parse_digits prev acc (c # cs) =
     (if is_digit c then parse_digits True (acc * 10 + digit_val c) cs
      else if c = CHR ''_'' \<and> prev then parse_digits False acc cs
      else None)"

definition int_of_str :: "string \<Rightarrow> error + int" where
  "int_of_str s =
     (case rev (dropWhile is_int_space (rev (dropWhile is_int_space s))) of
        [] \<Rightarrow> Inl ValueError
      | c # cs \<Rightarrow>
          (let body = (if c = CHR ''-'' \<or> c = CHR ''+'' then cs else c # cs) in
           if length (filter is_digit body) > 4300 then Inl ValueError
           else
             (case parse_digits False 0 body of
                None \<Rightarrow> Inl ValueError
              | Some n \<Rightarrow> Inr (if c = CHR ''-'' then - n else n))))"

fun py_int :: "json \<Rightarrow> error + int" where
  "py_int (JInt n) = Inr n"
| "py_int (JBool b) = Inr (if b then 1 else 0)"
| "py_int (JStr s) = int_of_str s"
| "py_int _ = Inl TypeError"

section \<open>Escaping and marks\<close>

text \<open>
  \<^verbatim>\<open>_escape_markdown\<close>: the backslash is doubled first, then each of the six
  characters gets a backslash, one \<^verbatim>\<open>replace\<close> after the other. A value that is not a
  string has no \<^verbatim>\<open>replace\<close>.
\<close>

definition escape_str :: "string \<Rightarrow> string" where
  "escape_str s =
     foldl (\<lambda>escaped c. replace_char c [backslash, c] escaped)
       (replace_char backslash [backslash, backslash] s)
       [backtick, CHR ''*'', CHR ''_'', CHR ''~'', CHR ''['', CHR '']'']"

fun escape_markdown :: "json \<Rightarrow> error + string" where
  "escape_markdown (JStr s) = Inr (escape_str s)"
| "escape_markdown _ = Inl AttributeError"

text \<open>\<^verbatim>\<open>any(mark.get("type") == "code" for mark in marks)\<close> stops at the first code mark.\<close>

fun any_code :: "json list \<Rightarrow> error + bool" where
  "any_code [] = Inr False"
| "any_code (mark # marks) =
     (case dict_get mark ''type'' of
        Inl e \<Rightarrow> Inl e
      | Inr t \<Rightarrow> if t = JStr ''code'' then Inr True else any_code marks)"

text \<open>The loop \<^verbatim>\<open>for mark in marks\<close> of \<^verbatim>\<open>_apply_marks\<close>.\<close>

definition wrap_mark :: "json \<Rightarrow> string \<Rightarrow> string" where
  "wrap_mark mark_type v =
     (if mark_type = JStr ''strong'' then ''**'' @ v @ ''**''
      else if mark_type = JStr ''em'' then ''*'' @ v @ ''*''
      else if mark_type = JStr ''strike'' then ''~~'' @ v @ ''~~''
      else if mark_type = JStr ''underline'' then ''<u>'' @ v @ ''</u>''
      else v)"

fun wrap_marks :: "string \<Rightarrow> json list \<Rightarrow> error + string" where
  "wrap_marks v [] = Inr v"
| "wrap_marks v (mark # marks) =
     (case dict_get mark ''type'' of
        Inl e \<Rightarrow> Inl e
      | Inr mark_type \<Rightarrow> wrap_marks (wrap_mark mark_type v) marks)"

text \<open>\<^verbatim>\<open>next((mark for mark in marks if mark.get("type") == "link"), None)\<close>.\<close>

fun first_link :: "json list \<Rightarrow> error + json" where
  "first_link [] = Inr JNull"
| "first_link (mark # marks) =
     (case dict_get mark ''type'' of
        Inl e \<Rightarrow> Inl e
      | Inr t \<Rightarrow> if t = JStr ''link'' then Inr mark else first_link marks)"

definition code_span :: "json \<Rightarrow> error + string" where
  "code_span text =
     (case text of
        JStr s \<Rightarrow> Inr (backtick # replace_char backtick [backslash, backtick] s @ [backtick])
      | _ \<Rightarrow> Inl AttributeError)"

definition link_wrap :: "json \<Rightarrow> string \<Rightarrow> error + string" where
  "link_wrap link v =
     (if truthy link then
        (case get_or link ''attrs'' (JDict []) of
           Inl e \<Rightarrow> Inl e
         | Inr attrs \<Rightarrow>
             (case dict_get attrs ''href'' of
                Inl e \<Rightarrow> Inl e
              | Inr href \<Rightarrow>
                  Inr (if truthy href then ''['' @ v @ '']('' @ py_str href @ '')'' else v)))
      else Inr v)"

definition apply_marks :: "json \<Rightarrow> json \<Rightarrow> error + string" where
  "apply_marks text marks =
     (if \<not> truthy marks then escape_markdown text
      else
        (case py_iter marks of
           Inl e \<Rightarrow> Inl e
         | Inr ms \<Rightarrow>
             (case any_code ms of
                Inl e \<Rightarrow> Inl e
              | Inr has_code \<Rightarrow>
                  if has_code then code_span text
                  else
                    (case escape_markdown text of
                       Inl e \<Rightarrow> Inl e
                     | Inr escaped \<Rightarrow>
                         (case wrap_marks escaped ms of
                            Inl e \<Rightarrow> Inl e
                          | Inr v \<Rightarrow>
                              (case first_link ms of
                                 Inl e \<Rightarrow> Inl e
                               | Inr link \<Rightarrow> link_wrap link v))))))"

section \<open>Inline rendering\<close>

text \<open>Sequencing: the second step runs only if the first did not raise.\<close>

definition and_then :: "error + 'a \<Rightarrow> ('a \<Rightarrow> error + 'b) \<Rightarrow> error + 'b" where
  "and_then m f = (case m of Inl e \<Rightarrow> Inl e | Inr x \<Rightarrow> f x)"

definition inline_text :: "json \<Rightarrow> error + json" where
  "inline_text node =
     and_then (get_or node ''text'' (JStr [])) (\<lambda>text.
     and_then (get_or node ''marks'' (JList [])) (\<lambda>marks.
     and_then (apply_marks text marks) (\<lambda>s. Inr (JStr s))))"

definition inline_emoji :: "json \<Rightarrow> error + json" where
  "inline_emoji node =
     and_then (get_or node ''attrs'' (JDict [])) (\<lambda>attrs.
     and_then (dict_get attrs ''text'') (\<lambda>t.
     if truthy t then Inr t
     else and_then (dict_get attrs ''shortName'') (\<lambda>n. Inr (py_or n (JStr [])))))"

definition inline_mention :: "json \<Rightarrow> error + json" where
  "inline_mention node =
     and_then (get_or node ''attrs'' (JDict [])) (\<lambda>attrs.
     and_then (dict_get attrs ''text'') (\<lambda>t.
     and_then (if truthy t then Inr t
               else and_then (dict_get attrs ''displayName'') (\<lambda>d.
                    if truthy d then Inr d
                    else and_then (dict_get attrs ''id'') (\<lambda>i. Inr (py_or i (JStr []))))) (\<lambda>text.
     Inr (JStr (if truthy text then ''@'' @ py_str text else [])))))"

definition inline_card :: "json \<Rightarrow> error + json" where
  "inline_card node =
     and_then (get_or node ''attrs'' (JDict [])) (\<lambda>attrs.
     and_then (get_or attrs ''url'' (JStr [])) (\<lambda>url.
     Inr (JStr (if truthy url then ''<'' @ py_str url @ ''>'' else []))))"

definition inline_status :: "json \<Rightarrow> error + json" where
  "inline_status node =
     and_then (get_or node ''attrs'' (JDict [])) (\<lambda>attrs.
     and_then (get_or attrs ''text'' (JStr [])) (\<lambda>text.
     if truthy text
     then and_then (escape_markdown text) (\<lambda>s. Inr (JStr (backtick # s @ [backtick])))
     else Inr (JStr [])))"

definition inline_date :: "json \<Rightarrow> error + json" where
  "inline_date node =
     and_then (get_or node ''attrs'' (JDict [])) (\<lambda>attrs.
     and_then (dict_get attrs ''text'') (\<lambda>t.
     if truthy t then Inr t
     else and_then (dict_get attrs ''timestamp'') (\<lambda>n. Inr (py_or n (JStr [])))))"

text \<open>The tail of \<^verbatim>\<open>_render_inline\<close>, for a node of another type whose content is not a list.\<close>

definition inline_other :: "json \<Rightarrow> error + json" where
  "inline_other node =
     and_then (dict_get node ''text'') (\<lambda>text.
     if truthy text then Inr (JStr (escape_str (py_str text)))
     else
       and_then (get_or node ''attrs'' (JDict [])) (\<lambda>attrs.
       and_then (dict_get attrs ''url'') (\<lambda>url.
       Inr (JStr (if truthy url then ''<'' @ py_str url @ ''>'' else [])))))"

lemma and_then_cong [fundef_cong]:
  "m = m' \<Longrightarrow> (\<And>x. m' = Inr x \<Longrightarrow> f x = f' x) \<Longrightarrow> and_then m f = and_then m' f'"
  by (simp add: and_then_def split: sum.splits)

lemma mapM_cong [fundef_cong]:
  "xs = ys \<Longrightarrow> (\<And>x. x \<in> set ys \<Longrightarrow> f x = g x) \<Longrightarrow> mapM f xs = mapM g ys"
  by (induction ys arbitrary: xs) (auto split: sum.splits)

lemma size_map_of: "map_of kvs k = Some v \<Longrightarrow> size v < size (JDict kvs)"
  by (induction kvs) (auto split: if_splits)

lemma size_member: "x \<in> set xs \<Longrightarrow> size x < size (JList xs)"
  by (induction xs) auto

lemma dict_get_size: "dict_get node k = Inr v \<Longrightarrow> size v < size node"
  by (cases node) (auto split: option.splits dest: size_map_of)

lemma dict_get_child_size:
  "dict_get node k = Inr (JList xs) \<Longrightarrow> x \<in> set xs \<Longrightarrow> size x < size node"
  using dict_get_size size_member by fastforce

function render_inline :: "json \<Rightarrow> error + json" where
  "render_inline node =
     and_then (dict_get node ''type'') (\<lambda>node_type.
     if node_type = JStr ''text'' then inline_text node
     else if node_type = JStr ''emoji'' then inline_emoji node
     else if node_type = JStr ''mention'' then inline_mention node
     else if node_type = JStr ''inlineCard'' then inline_card node
     else if node_type = JStr ''status'' then inline_status node
     else if node_type = JStr ''date'' then inline_date node
     else if node_type = JStr ''hardBreak'' then Inr (JStr [])
     else
       and_then (dict_get node ''content'') (\<lambda>content.
       case content of
         JList children \<Rightarrow>
           and_then (mapM render_inline children) (\<lambda>parts.
           and_then (py_join [] parts) (\<lambda>s. Inr (JStr s)))
       | _ \<Rightarrow> inline_other node))"
  by pat_completeness auto
termination
  by (relation "measure size") (auto dest: dict_get_child_size)

declare render_inline.simps [simp del]

text \<open>\<^verbatim>\<open>_collect_text\<close>.\<close>

function collect_text :: "json \<Rightarrow> error + json" where
  "collect_text node =
     (case node of
        JDict kvs \<Rightarrow>
          and_then (dict_get node ''type'') (\<lambda>node_type.
          if node_type = JStr ''text'' then get_or node ''text'' (JStr [])
          else if node_type = JStr ''hardBreak'' then Inr (JStr [newline])
          else
            and_then (in_str_set node_type [''emoji'', ''mention'']) (\<lambda>emoji_or_mention.
            if emoji_or_mention then
              and_then (get_or node ''attrs'' (JDict [])) (\<lambda>attrs.
              and_then (dict_get attrs ''text'') (\<lambda>t.
              if truthy t then Inr t
              else and_then (dict_get attrs ''shortName'') (\<lambda>n. Inr (py_or n (JStr [])))))
            else
              and_then (dict_get node ''content'') (\<lambda>content.
              case content of
                JList children \<Rightarrow>
                  and_then (mapM collect_text children) (\<lambda>parts.
                  and_then (py_join [] parts) (\<lambda>s. Inr (JStr s)))
              | _ \<Rightarrow> Inr (JStr []))))
      | _ \<Rightarrow> Inr (JStr []))"
  by pat_completeness auto
termination
  by (relation "measure size") (auto simp del: dict_get.simps dest: dict_get_child_size)

declare collect_text.simps [simp del]

section \<open>Blocks without nested blocks\<close>

text \<open>
  \<^verbatim>\<open>_render_paragraph_lines\<close>. The list \<^verbatim>\<open>lines\<close> is never empty; the loop keeps
  it as the finished lines and the last line.
\<close>

definition paragraph_step :: "string list \<times> string \<Rightarrow> json \<Rightarrow> error + string list \<times> string" where
  "paragraph_step st child =
     (case st of (done, cur) \<Rightarrow>
        and_then (dict_get child ''type'') (\<lambda>t.
        if t = JStr ''hardBreak'' then Inr (done @ [rstrip cur @ ''  ''], [])
        else
          and_then (render_inline child) (\<lambda>v.
          case v of JStr s \<Rightarrow> Inr (done, cur @ s) | _ \<Rightarrow> Inl TypeError)))"

definition render_paragraph_lines :: "json \<Rightarrow> error + string list" where
  "render_paragraph_lines node =
     and_then (get_or node ''content'' (JList [])) (\<lambda>content.
     and_then (py_iter content) (\<lambda>children.
     and_then (foldM paragraph_step ([], []) children) (\<lambda>st.
     Inr (fst st @ [snd st]))))"

definition render_paragraph :: "json \<Rightarrow> error + string list" where
  "render_paragraph node = render_paragraph_lines node"

definition render_heading :: "json \<Rightarrow> error + string" where
  "render_heading node =
     and_then (dict_get_default node ''attrs'' (JDict [])) (\<lambda>attrs.
     and_then (dict_get_default attrs ''level'' (JInt 1)) (\<lambda>level.
     and_then (py_int level) (\<lambda>level.
     and_then (get_or node ''content'' (JList [])) (\<lambda>content.
     and_then (py_iter content) (\<lambda>children.
     and_then (mapM render_inline children) (\<lambda>parts.
     and_then (py_join [] parts) (\<lambda>text.
     Inr (rstrip (replicate (nat (max 1 (min 6 level))) CHR ''#'' @ '' '' @ text)))))))))"

definition render_code_block :: "json \<Rightarrow> error + string list" where
  "render_code_block node =
     and_then (get_or node ''attrs'' (JDict [])) (\<lambda>attrs.
     and_then (get_or attrs ''language'' (JStr [])) (\<lambda>language.
     and_then (collect_text node) (\<lambda>code.
     case code of
       JStr c \<Rightarrow>
         Inr ([if truthy language then [backtick, backtick, backtick] @ py_str language
               else [backtick, backtick, backtick]]
              @ (if splitlines c = [] then [[]] else splitlines c)
              @ [[backtick, backtick, backtick]])
     | _ \<Rightarrow> Inl AttributeError)))"

section \<open>Lists, quotes, panels and tables\<close>

definition bullet_prefix :: "nat \<Rightarrow> bool \<Rightarrow> int \<Rightarrow> string" where
  "bullet_prefix list_level ordered index =
     concat (replicate list_level ''  '') @ (if ordered then show_int index @ ''.'' else ''-'') @ '' ''"

definition continuation_prefix :: "nat \<Rightarrow> bool \<Rightarrow> int \<Rightarrow> string" where
  "continuation_prefix list_level ordered index =
     replicate (length (bullet_prefix list_level ordered index)) CHR '' ''"

text \<open>\<^verbatim>\<open>continuation_prefix + line\<close>: a line that is not a string raises TypeError.\<close>

fun prefix_line :: "string \<Rightarrow> json \<Rightarrow> error + json" where
  "prefix_line p (JStr s) = Inr (JStr (p @ s))"
| "prefix_line p _ = Inl TypeError"

definition pipe_line :: "string list \<Rightarrow> nat \<Rightarrow> string" where
  "pipe_line row col_count =
     ''| '' @ join '' | '' (row @ replicate (col_count - length row) []) @ '' |''"

text \<open>The lines of \<^verbatim>\<open>_render_table\<close> once every cell is rendered.\<close>

definition table_lines :: "string list list \<Rightarrow> bool \<Rightarrow> string list" where
  "table_lines rendered_rows header_row =
     (case rendered_rows of
        [] \<Rightarrow> []
      | first_row # others \<Rightarrow>
          (let col_count = fold max (map length others) (length first_row) in
           [pipe_line first_row col_count]
           @ (if header_row then [pipe_line (replicate col_count ''---'') col_count] else [])
           @ map (\<lambda>row. pipe_line row col_count)
               (drop (if header_row then 1 else 0) rendered_rows)))"

text \<open>
  The measure of the mutual recursion below: four times the size of the node plus the
  rank of the function, since several functions pass their own node on.
\<close>

definition msize :: "json \<Rightarrow> nat" where
  "msize v = (case v of JList xs \<Rightarrow> size_list size xs | _ \<Rightarrow> 0)"

definition call_measure ::
  "((json \<times> nat + json \<times> nat \<times> bool) + (json \<times> nat \<times> bool \<times> int + json \<times> nat \<times> string))
   + ((json \<times> nat + json \<times> nat) + (json + (json + json \<times> nat \<times> bool))) \<Rightarrow> nat" where
  "call_measure c =
     (case c of
        Inl (Inl (Inl (node, _))) \<Rightarrow> 4 * size node + 2
      | Inl (Inl (Inr (node, _))) \<Rightarrow> 4 * size node + 1
      | Inl (Inr (Inl (node, _))) \<Rightarrow> 4 * size node + 1
      | Inl (Inr (Inr (node, _))) \<Rightarrow> 4 * size node + 3
      | Inr (Inl (Inl (node, _))) \<Rightarrow> 4 * size node + 1
      | Inr (Inl (Inr (node, _))) \<Rightarrow> 4 * size node + 1
      | Inr (Inr (Inl node)) \<Rightarrow> 4 * size node + 1
      | Inr (Inr (Inr (Inl node))) \<Rightarrow> 4 * size node + 1
      | Inr (Inr (Inr (Inr (nodes, _)))) \<Rightarrow> 4 * msize nodes + 3)"

lemma size_iter_elem: "py_iter v = Inr xs \<Longrightarrow> x \<in> set xs \<Longrightarrow> size x \<le> msize v"
  by (cases v) (auto simp: msize_def dest: size_member)

lemma get_or_msize: "get_or node k (JList []) = Inr c \<Longrightarrow> msize c < size node"
  by (cases node)
     (auto simp: get_or_def py_or_def msize_def
           split: option.splits if_splits json.splits dest!: size_map_of)

lemma get_or_iter_size:
  "get_or node k (JList []) = Inr c \<Longrightarrow> py_iter c = Inr xs \<Longrightarrow> x \<in> set xs \<Longrightarrow>
   size x < size node"
  using get_or_msize size_iter_elem by fastforce

lemma get_or_iter_size2:
  "get_or node k (JList []) = Inr c \<Longrightarrow> py_iter c = Inr xs \<Longrightarrow> x \<in> set xs \<Longrightarrow>
   get_or x k' (JList []) = Inr c' \<Longrightarrow> py_iter c' = Inr ys \<Longrightarrow> y \<in> set ys \<Longrightarrow>
   size y < size node"
  by (meson get_or_iter_size less_trans)

lemma first_rest_size:
  "py_first_rest c = Inr (f, r) \<Longrightarrow> size f \<le> msize c \<and> (\<forall>x \<in> set r. size x \<le> msize c)"
  by (cases c rule: py_first_rest.cases) (auto simp: msize_def dest: size_member)

lemma get_or_first_size:
  "get_or node k (JList []) = Inr c \<Longrightarrow> py_first_rest c = Inr (f, r) \<Longrightarrow> size f < size node"
  using get_or_msize first_rest_size by fastforce

lemma get_or_rest_size:
  "get_or node k (JList []) = Inr c \<Longrightarrow> py_first_rest c = Inr (f, r) \<Longrightarrow> x \<in> set r \<Longrightarrow>
   size x < size node"
  using get_or_msize first_rest_size by fastforce

lemma foldM_cong [fundef_cong]:
  "xs = ys \<Longrightarrow> s = t \<Longrightarrow> (\<And>s x. x \<in> set ys \<Longrightarrow> f s x = g s x) \<Longrightarrow> foldM f s xs = foldM g t ys"
  by (induction ys arbitrary: xs s t) (auto split: sum.splits)

function render_block :: "json \<Rightarrow> nat \<Rightarrow> error + json list"
  and render_list :: "json \<Rightarrow> nat \<Rightarrow> bool \<Rightarrow> error + json list"
  and render_list_item :: "json \<Rightarrow> nat \<Rightarrow> bool \<Rightarrow> int \<Rightarrow> error + json list"
  and render_block_in_list :: "json \<Rightarrow> nat \<Rightarrow> string \<Rightarrow> error + json list"
  and render_blockquote :: "json \<Rightarrow> nat \<Rightarrow> error + string list"
  and render_panel :: "json \<Rightarrow> nat \<Rightarrow> error + string list"
  and render_table :: "json \<Rightarrow> error + string list"
  and render_cell :: "json \<Rightarrow> error + string list"
  and render_inner_blocks :: "json \<Rightarrow> nat \<Rightarrow> bool \<Rightarrow> error + string list"
where
  "render_block node list_level =
     and_then (dict_get node ''type'') (\<lambda>node_type.
     if node_type = JStr ''paragraph'' then
       and_then (render_paragraph node) (\<lambda>ls. Inr (map JStr ls))
     else if node_type = JStr ''heading'' then
       and_then (render_heading node) (\<lambda>l. Inr [JStr l])
     else if node_type = JStr ''bulletList'' then render_list node list_level False
     else if node_type = JStr ''orderedList'' then render_list node list_level True
     else if node_type = JStr ''blockquote'' then
       and_then (render_blockquote node list_level) (\<lambda>ls. Inr (map JStr ls))
     else if node_type = JStr ''panel'' then
       and_then (render_panel node list_level) (\<lambda>ls. Inr (map JStr ls))
     else if node_type = JStr ''codeBlock'' then
       and_then (render_code_block node) (\<lambda>ls. Inr (map JStr ls))
     else if node_type = JStr ''rule'' then Inr [JStr ''---'']
     else if node_type = JStr ''table'' then
       and_then (render_table node) (\<lambda>ls. Inr (map JStr ls))
     else
       and_then (collect_text node) (\<lambda>text. Inr (if truthy text then [text] else [])))"
| "render_list node list_level ordered =
     and_then (dict_get_default node ''attrs'' (JDict [])) (\<lambda>attrs.
     and_then (dict_get_default attrs ''order'' (JInt 1)) (\<lambda>start.
     and_then (if ordered then py_int start else Inr 1) (\<lambda>index.
     and_then (get_or node ''content'' (JList [])) (\<lambda>content.
     and_then (py_iter content) (\<lambda>items.
     and_then
       (foldM (\<lambda>st item.
          case st of (lines, index) \<Rightarrow>
            and_then (render_list_item item list_level ordered index) (\<lambda>ls.
            Inr (lines @ ls, if ordered then index + 1 else index)))
          ([], index) items)
       (\<lambda>st. Inr (fst st)))))))"
| "render_list_item node list_level ordered index =
     and_then (get_or node ''content'' (JList [])) (\<lambda>content.
     if \<not> truthy content then Inr [JStr (rstrip (bullet_prefix list_level ordered index))]
     else
       and_then (py_first_rest content) (\<lambda>fr.
       case fr of (first, rest) \<Rightarrow>
         and_then (dict_get first ''type'') (\<lambda>first_type.
         and_then
           (if first_type = JStr ''paragraph'' then
              and_then (render_paragraph_lines first) (\<lambda>paragraph_lines.
              case paragraph_lines of
                [] \<Rightarrow> Inr [JStr (rstrip (bullet_prefix list_level ordered index))]
              | l # ls \<Rightarrow>
                  Inr (JStr (bullet_prefix list_level ordered index @ l)
                       # map (\<lambda>line. JStr (continuation_prefix list_level ordered index @ line)) ls))
            else
              and_then
                (render_block_in_list first list_level
                   (continuation_prefix list_level ordered index))
                (\<lambda>ls. Inr (JStr (rstrip (bullet_prefix list_level ordered index)) # ls)))
           (\<lambda>lines.
              foldM (\<lambda>lines block.
                and_then
                  (render_block_in_list block list_level
                     (continuation_prefix list_level ordered index))
                  (\<lambda>ls. Inr (lines @ ls)))
                lines rest))))"
| "render_block_in_list node list_level cont_prefix =
     and_then (dict_get node ''type'') (\<lambda>node_type.
     and_then (in_str_set node_type [''bulletList'', ''orderedList'']) (\<lambda>is_list.
     if is_list then render_block node (list_level + 1)
     else
       and_then (render_block node list_level) (\<lambda>block_lines.
       mapM (prefix_line cont_prefix) block_lines)))"
| "render_blockquote node list_level =
     and_then (get_or node ''content'' (JList [])) (\<lambda>content.
     and_then (render_inner_blocks content list_level False) (\<lambda>inner.
     if inner = [] then Inr [''>'']
     else Inr (map (\<lambda>line. rstrip (''> '' @ line)) inner)))"
| "render_panel node list_level =
     and_then (get_or node ''attrs'' (JDict [])) (\<lambda>attrs.
     and_then (dict_get attrs ''title'') (\<lambda>t.
     and_then (get_or node ''content'' (JList [])) (\<lambda>content.
     and_then (render_inner_blocks content list_level False) (\<lambda>inner.
     let title = (if truthy t then ''**'' @ escape_str (py_str t) @ ''** '' else []) in
     case inner of
       [] \<Rightarrow> Inr [rstrip (''> '' @ title)]
     | l # ls \<Rightarrow>
         Inr ((if title \<noteq> [] then [rstrip (''> '' @ title @ l)] else [rstrip (''> '' @ l)])
              @ map (\<lambda>line. rstrip (''> '' @ line)) ls)))))"
| "render_table node =
     and_then (get_or node ''content'' (JList [])) (\<lambda>rows.
     if \<not> truthy rows then Inr []
     else
       and_then (py_iter rows) (\<lambda>row_list.
       and_then
         (foldM (\<lambda>st row.
            case st of (rendered_rows, header_row) \<Rightarrow>
              and_then (get_or row ''content'' (JList [])) (\<lambda>cells.
              and_then (py_iter cells) (\<lambda>cell_list.
              and_then
                (foldM (\<lambda>st cell.
                   case st of (rendered_cells, header_row) \<Rightarrow>
                     and_then (dict_get cell ''type'') (\<lambda>cell_type.
                     and_then (render_cell cell) (\<lambda>cell_lines.
                     Inr (rendered_cells @ [strip (join ''<br>'' cell_lines)],
                          header_row \<or> cell_type = JStr ''tableHeader''))))
                   ([], header_row) cell_list)
                (\<lambda>st. Inr (rendered_rows @ [fst st], snd st)))))
            ([], False) row_list)
         (\<lambda>st. Inr (table_lines (fst st) (snd st)))))"
| "render_cell node =
     and_then (get_or node ''content'' (JList [])) (\<lambda>content.
     render_inner_blocks content 0 True)"
| "render_inner_blocks nodes list_level tight =
     and_then (py_iter nodes) (\<lambda>node_list.
     and_then
       (foldM (\<lambda>blocks node.
          and_then (render_block node list_level) (\<lambda>lines.
          if lines = [] then Inr blocks
          else and_then (py_join [newline] lines) (\<lambda>b. Inr (blocks @ [b]))))
          [] node_list)
       (\<lambda>blocks.
          Inr (if blocks = [] then []
               else splitlines (join (if tight then [newline] else [newline, newline]) blocks))))"
  by pat_completeness auto

termination
  by (relation "measure call_measure")
     (auto simp: call_measure_def
           dest: get_or_iter_size get_or_first_size get_or_rest_size get_or_msize
                 size_iter_elem get_or_iter_size2)

declare render_block.simps [simp del] render_list.simps [simp del]
  render_list_item.simps [simp del] render_block_in_list.simps [simp del]
  render_blockquote.simps [simp del] render_panel.simps [simp del]
  render_table.simps [simp del] render_cell.simps [simp del]
  render_inner_blocks.simps [simp del]

section \<open>The entry point\<close>

text \<open>\<^verbatim>\<open>_MarkdownRenderer.render\<close>.\<close>

definition render :: "json \<Rightarrow> error + string" where
  "render doc =
     and_then (get_or doc ''content'' (JList [])) (\<lambda>content.
     and_then (py_iter content) (\<lambda>nodes.
     and_then
       (foldM (\<lambda>blocks node.
          and_then (render_block node 0) (\<lambda>lines.
          if lines = [] then Inr blocks
          else and_then (py_join [newline] lines) (\<lambda>b. Inr (blocks @ [b]))))
          [] nodes)
       (\<lambda>blocks. Inr (join [newline, newline] blocks))))"

text \<open>\<^verbatim>\<open>isinstance(v, dict) and v.get("type") == "doc"\<close>.\<close>

definition is_doc :: "json \<Rightarrow> bool" where
  "is_doc v = (case v of JDict kvs \<Rightarrow> map_of kvs ''type'' = Some (JStr ''doc'') | _ \<Rightarrow> False)"

definition is_list :: "json \<Rightarrow> bool" where
  "is_list v = (case v of JList xs \<Rightarrow> True | _ \<Rightarrow> False)"

text \<open>\<^verbatim>\<open>_extract_doc\<close>; Python's \<^verbatim>\<open>None\<close> result is \<open>None\<close>.\<close>

definition extract_doc :: "json \<Rightarrow> json option" where
  "extract_doc v =
     (case v of
        JDict kvs \<Rightarrow>
          (if map_of kvs ''type'' = Some (JStr ''doc'') then Some v
           else
             (let body = (case map_of kvs ''body'' of None \<Rightarrow> JNull | Some b \<Rightarrow> b) in
              if is_doc body then Some body
              else
                (let description = (case map_of kvs ''description'' of None \<Rightarrow> JNull | Some d \<Rightarrow> d) in
                 if is_doc description then Some description
                 else if is_list (case map_of kvs ''content'' of None \<Rightarrow> JNull | Some c \<Rightarrow> c)
                         \<and> (case map_of kvs ''version'' of None \<Rightarrow> JNull | Some c \<Rightarrow> c) \<noteq> JNull
                 then Some v
                 else None)))
      | _ \<Rightarrow> None)"

definition render_markdown :: "json \<Rightarrow> error + string" where
  "render_markdown v =
     (case extract_doc v of
        None \<Rightarrow> Inr []
      | Some doc \<Rightarrow> if \<not> truthy doc then Inr [] else render doc)"

section \<open>Notions used in the statements\<close>

definition is_dict :: "json \<Rightarrow> bool" where
  "is_dict v = (case v of JDict kvs \<Rightarrow> True | _ \<Rightarrow> False)"

text \<open>What \<^verbatim>\<open>v.get(k)\<close> returns on a dictionary.\<close>

definition field :: "json \<Rightarrow> string \<Rightarrow> json" where
  "field v k =
     (case v of JDict kvs \<Rightarrow> (case map_of kvs k of None \<Rightarrow> JNull | Some x \<Rightarrow> x) | _ \<Rightarrow> JNull)"

text \<open>Documents for the examples.\<close>

definition mark :: "string \<Rightarrow> json" where
  "mark t = JDict [(''type'', JStr t)]"

definition link_mark :: "string \<Rightarrow> json" where
  "link_mark href = JDict [(''type'', JStr ''link''), (''attrs'', JDict [(''href'', JStr href)])]"

definition text_node :: "string \<Rightarrow> json list \<Rightarrow> json" where
  "text_node s marks = JDict [(''type'', JStr ''text''), (''text'', JStr s), (''marks'', JList marks)]"

definition plain :: "string \<Rightarrow> json" where
  "plain s = JDict [(''type'', JStr ''text''), (''text'', JStr s)]"

definition elem :: "string \<Rightarrow> json list \<Rightarrow> json" where
  "elem t children = JDict [(''type'', JStr t), (''content'', JList children)]"

definition elem_attrs :: "string \<Rightarrow> (string \<times> json) list \<Rightarrow> json list \<Rightarrow> json" where
  "elem_attrs t attrs children =
     JDict [(''type'', JStr t), (''attrs'', JDict attrs), (''content'', JList children)]"

text \<open>
  An inline node that is not a hard break and renders to the string \<open>s\<close>.
\<close>

definition renders_to :: "json \<Rightarrow> string \<Rightarrow> bool" where
  "renders_to c s =
     (is_dict c \<and> field c ''type'' \<noteq> JStr ''hardBreak'' \<and> render_inline c = Inr (JStr s))"

text \<open>
  A paragraph node with no content, or whose children are not hard breaks and all render
  to the empty string.
\<close>

definition empty_paragraph :: "json \<Rightarrow> bool" where
  "empty_paragraph p =
     (is_dict p \<and> field p ''type'' = JStr ''paragraph'' \<and>
      (\<not> truthy (field p ''content'') \<or>
       (case field p ''content'' of
          JList children \<Rightarrow> list_all (\<lambda>c. renders_to c []) children
        | _ \<Rightarrow> False)))"

text \<open>
  The start of the numbering of a list node whose \<^verbatim>\<open>attrs\<close> are absent or a
  dictionary and whose \<^verbatim>\<open>order\<close> is absent or an integer: \<^verbatim>\<open>attrs.order\<close>, and 1
  when it is absent.
\<close>

definition order_attr :: "json \<Rightarrow> int option" where
  "order_attr l =
     (case l of
        JDict kvs \<Rightarrow>
          (case map_of kvs ''attrs'' of
             None \<Rightarrow> Some 1
           | Some (JDict as) \<Rightarrow>
               (case map_of as ''order'' of None \<Rightarrow> Some 1 | Some (JInt k) \<Rightarrow> Some k | _ \<Rightarrow> None)
           | _ \<Rightarrow> None)
      | _ \<Rightarrow> None)"

text \<open>
  The text of one table cell, as the inner loop of \<^verbatim>\<open>_render_table\<close> computes it:
  the lines of the cell joined with \<^verbatim>\<open><br>\<close> and stripped.
\<close>

definition cell_text :: "json \<Rightarrow> error + string" where
  "cell_text cell =
     and_then (render_cell cell) (\<lambda>cell_lines. Inr (strip (join ''<br>'' cell_lines)))"

definition cell_renders :: "json \<Rightarrow> string \<Rightarrow> bool" where
  "cell_renders cell s = (is_dict cell \<and> cell_text cell = Inr s)"

section \<open>Auxiliary lemmas\<close>

lemma and_then_Inl [simp]: "and_then (Inl e) f = Inl e"
  by (simp add: and_then_def)

lemma and_then_Inr [simp]: "and_then (Inr x) f = f x"
  by (simp add: and_then_def)

lemma dict_get_field: "is_dict v \<Longrightarrow> dict_get v k = Inr (field v k)"
  by (cases v) (simp_all add: is_dict_def field_def)

lemma any_code_False:
  "\<forall>m \<in> set ms. is_dict m \<and> field m ''type'' \<noteq> JStr ''code'' \<Longrightarrow> any_code ms = Inr False"
  by (induction ms) (simp_all add: dict_get_field)

lemma wrap_marks_foldl:
  "\<forall>m \<in> set ms. is_dict m \<Longrightarrow>
   wrap_marks v ms = Inr (foldl (\<lambda>v m. wrap_mark (field m ''type'') v) v ms)"
  by (induction ms arbitrary: v) (simp_all add: dict_get_field)

lemma get_or_field: "is_dict v \<Longrightarrow> get_or v k d = Inr (py_or (field v k) d)"
  by (simp add: get_or_def dict_get_field)

lemma foldM_append:
  "foldM f s (xs @ ys) = and_then (foldM f s xs) (\<lambda>s'. foldM f s' ys)"
  by (induction xs arbitrary: s) (simp_all split: sum.splits)

lemma paragraph_loop_run:
  "list_all2 renders_to cs ss \<Longrightarrow>
   foldM paragraph_step (done, cur) cs = Inr (done, cur @ concat ss)"
proof (induction cs ss arbitrary: cur rule: list_all2_induct)
  case Nil
  then show ?case by simp
next
  case (Cons c cs s ss)
  then show ?case by (simp add: paragraph_step_def dict_get_field renders_to_def)
qed

lemma order_attr_start:
  "order_attr l = Some start \<Longrightarrow>
   and_then (dict_get_default l ''attrs'' (JDict [])) (\<lambda>attrs.
     and_then (dict_get_default attrs ''order'' (JInt 1)) (\<lambda>start. and_then (py_int start) f))
   = f start"
  by (auto simp: order_attr_def split: json.splits option.splits)

lemma and_then_assoc:
  "and_then (and_then m f) g = and_then m (\<lambda>x. and_then (f x) g)"
  by (simp add: and_then_def split: sum.splits)

lemma list_loop_enumerate:
  "foldM (\<lambda>st item.
          case st of (lines, index) \<Rightarrow>
            and_then (render_list_item item lvl True index) (\<lambda>ls.
            Inr (lines @ ls, if True then index + 1 else index)))
      (acc, start + int n) items
   = and_then
       (mapM (\<lambda>p. render_list_item (snd p) lvl True (start + int (fst p))) (enumerate n items))
       (\<lambda>ls. Inr (acc @ concat ls, start + int (n + length items)))"
proof (induction items arbitrary: acc n)
  case Nil
  then show ?case by simp
next
  case (Cons item items)
  show ?case
  proof (cases "render_list_item item lvl True (start + int n)")
    case (Inl e)
    then show ?thesis by simp
  next
    case (Inr b)
    then show ?thesis
      using Cons.IH [of "acc @ b" "Suc n"]
      by (simp add: algebra_simps split: sum.splits)
  qed
qed

lemma extend_loop_prefix:
  "foldM (\<lambda>lines block. and_then (F block) (\<lambda>ls. Inr (lines @ ls))) lines rest = Inr out
   \<Longrightarrow> \<exists>ys. out = lines @ ys"
proof (induction rest arbitrary: lines)
  case Nil
  then show ?case by simp
next
  case (Cons b rest)
  then show ?case by (fastforce simp: and_then_def split: sum.splits)
qed

lemma rstrip_bullet:
  "rstrip (bullet_prefix lvl True n) = concat (replicate lvl ''  '') @ show_int n @ ''.''"
  by (simp add: rstrip_def bullet_prefix_def is_space_def)

lemma list_item_first_line:
  assumes "render_list_item item lvl True n = Inr out"
  shows "\<exists>rest more. out = JStr (concat (replicate lvl ''  '') @ show_int n @ ''.'' @ rest) # more"
proof -
  let ?b = "concat (replicate lvl ''  '') @ show_int n @ ''.''"
  have bp: "bullet_prefix lvl True n = ?b @ '' ''" by (simp add: bullet_prefix_def)
  obtain content where c: "get_or item ''content'' (JList []) = Inr content"
    using assms by (cases "get_or item ''content'' (JList [])") (simp_all add: render_list_item.simps)
  show ?thesis
  proof (cases "truthy content")
    case False
    then have "out = [JStr ?b]"
      using assms c by (simp add: render_list_item.simps rstrip_bullet)
    then show ?thesis by (intro exI [of _ "[]"]) simp
  next
    case True
    then obtain first rest where fr: "py_first_rest content = Inr (first, rest)"
      using assms c by (cases "py_first_rest content") (auto simp: render_list_item.simps)
    obtain ft where ft: "dict_get first ''type'' = Inr ft"
      using assms c True fr by (cases "dict_get first ''type''") (auto simp: render_list_item.simps)
    let ?first_lines = "(if ft = JStr ''paragraph'' then
              and_then (render_paragraph_lines first) (\<lambda>paragraph_lines.
              case paragraph_lines of
                [] \<Rightarrow> Inr [JStr (rstrip (bullet_prefix lvl True n))]
              | l # ls \<Rightarrow>
                  Inr (JStr (bullet_prefix lvl True n @ l)
                       # map (\<lambda>line. JStr (continuation_prefix lvl True n @ line)) ls))
            else
              and_then
                (render_block_in_list first lvl (continuation_prefix lvl True n))
                (\<lambda>ls. Inr (JStr (rstrip (bullet_prefix lvl True n)) # ls)))"
    obtain lines where l: "?first_lines = Inr lines"
      and loop: "foldM (\<lambda>lines block.
                and_then (render_block_in_list block lvl (continuation_prefix lvl True n))
                  (\<lambda>ls. Inr (lines @ ls))) lines rest = Inr out"
      using assms c True fr ft by (cases ?first_lines) (auto simp: render_list_item.simps)
    have rs: "rstrip (concat (replicate lvl ''  '') @ show_int n @ ''. '')
              = concat (replicate lvl ''  '') @ show_int n @ ''.''"
      using rstrip_bullet [of lvl n] by (simp add: bullet_prefix_def)
    have "\<exists>r m. lines = JStr (?b @ r) # m"
      using l by (auto simp: rs bp and_then_def split: if_splits sum.splits list.splits)
    moreover obtain ys where "out = lines @ ys" using extend_loop_prefix [OF loop] by blast
    ultimately show ?thesis by auto
  qed
qed

lemma cells_loop_run:
  "list_all2 cell_renders cells texts \<Longrightarrow>
   foldM (\<lambda>st cell.
            case st of (rendered_cells, header_row) \<Rightarrow>
              and_then (dict_get cell ''type'') (\<lambda>cell_type.
              and_then (render_cell cell) (\<lambda>cell_lines.
              Inr (rendered_cells @ [strip (join ''<br>'' cell_lines)],
                   header_row \<or> cell_type = JStr ''tableHeader''))))
     (acc, h) cells
   = Inr (acc @ texts, h \<or> (\<exists>c \<in> set cells. field c ''type'' = JStr ''tableHeader''))"
proof (induction cells texts arbitrary: acc h rule: list_all2_induct)
  case Nil
  then show ?case by simp
next
  case (Cons c cells s texts)
  obtain ls where ls: "render_cell c = Inr ls" and s: "s = strip (join ''<br>'' ls)"
    using Cons.hyps(1)
    by (cases "render_cell c") (auto simp: cell_renders_def cell_text_def)
  show ?case
    using Cons.hyps(1) ls s
    by (auto simp: Cons.IH cell_renders_def dict_get_field)
qed

lemma paragraph_loop_empty:
  "list_all (\<lambda>c. renders_to c []) cs \<Longrightarrow> foldM paragraph_step (done, cur) cs = Inr (done, cur)"
  by (induction cs) (simp_all add: paragraph_step_def dict_get_field renders_to_def)

lemma empty_paragraph_lines:
  assumes "empty_paragraph p"
  shows "render_paragraph_lines p = Inr [[]]"
proof (cases "truthy (field p ''content'')")
  case False
  then show ?thesis using assms
    by (simp add: empty_paragraph_def render_paragraph_lines_def get_or_field py_or_def)
next
  case True
  then obtain cs where cs: "field p ''content'' = JList cs"
    and all: "list_all (\<lambda>c. renders_to c []) cs"
    using assms by (auto simp: empty_paragraph_def split: json.splits)
  show ?thesis using assms True cs paragraph_loop_empty [OF all, of "[]" "[]"]
    by (simp add: empty_paragraph_def render_paragraph_lines_def get_or_field py_or_def)
qed

lemma empty_paragraph_block:
  "empty_paragraph p \<Longrightarrow> render_block p lvl = Inr [JStr []]"
  by (frule empty_paragraph_lines)
     (simp add: render_block.simps empty_paragraph_def dict_get_field render_paragraph_def)

section \<open>Mark composition\<close>

text \<open>
  C1 (as the code has it). For a text node without a code mark whose marks are all
  dictionaries, the marks are applied in the order of the node's marks list, each wrapping
  the result so far: the first mark is innermost, the last one outermost; a link mark wraps
  the whole afterwards. The order is the source order, not strong, em, strike, underline.
\<close>

theorem apply_marks_source_order:
  assumes "\<forall>m \<in> set ms. is_dict m \<and> field m ''type'' \<noteq> JStr ''code''"
  shows "apply_marks (JStr t) (JList ms) =
         and_then (first_link ms) (\<lambda>link.
           link_wrap link (foldl (\<lambda>v m. wrap_mark (field m ''type'') v) (escape_str t) ms))"
proof (cases "ms = []")
  case True
  then show ?thesis by (simp add: apply_marks_def link_wrap_def)
next
  case False
  have "any_code ms = Inr False" using assms by (rule any_code_False)
  moreover have "wrap_marks (escape_str t) ms =
      Inr (foldl (\<lambda>v m. wrap_mark (field m ''type'') v) (escape_str t) ms)"
    using assms by (simp add: wrap_marks_foldl)
  ultimately show ?thesis using False
    by (simp add: apply_marks_def and_then_def split: sum.splits)
qed

theorem apply_marks_source_order_witness:
  "apply_marks (JStr ''text'') (JList [mark ''strike'', mark ''strong'']) = Inr ''**~~text~~**''
   \<and> apply_marks (JStr ''text'') (JList [mark ''strong'', mark ''strike'']) = Inr ''~~**text**~~''"
proof -
  have a: "\<forall>m \<in> set [mark ''strike'', mark ''strong'']. is_dict m \<and> field m ''type'' \<noteq> JStr ''code''"
    by (simp add: mark_def is_dict_def field_def)
  have b: "\<forall>m \<in> set [mark ''strong'', mark ''strike'']. is_dict m \<and> field m ''type'' \<noteq> JStr ''code''"
    by (simp add: mark_def is_dict_def field_def)
  have c: "and_then (first_link [mark ''strike'', mark ''strong'']) (\<lambda>link.
           link_wrap link (foldl (\<lambda>v m. wrap_mark (field m ''type'') v) (escape_str ''text'')
             [mark ''strike'', mark ''strong'']))
        = Inr ''**~~text~~**''"
    by code_simp
  have d: "and_then (first_link [mark ''strong'', mark ''strike'']) (\<lambda>link.
           link_wrap link (foldl (\<lambda>v m. wrap_mark (field m ''type'') v) (escape_str ''text'')
             [mark ''strong'', mark ''strike'']))
        = Inr ''~~**text**~~''"
    by code_simp
  show ?thesis
    using apply_marks_source_order [OF a, of "''text''"]
      apply_marks_source_order [OF b, of "''text''"] c d
    by simp
qed

text \<open>
  C1 (as stated) fails: the text \<^verbatim>\<open>text\<close> with the marks strike, strong renders as
  \<^verbatim>\<open>**~~text~~**\<close>, with the marks strong, strike as \<^verbatim>\<open>~~**text**~~\<close>, so the
  same set of marks in two orders gives two strings.
\<close>

theorem marks_fixed_order_counterexample:
  "render_inline (text_node ''text'' [mark ''strike'', mark ''strong'']) = Inr (JStr ''**~~text~~**'')
   \<and> render_inline (text_node ''text'' [mark ''strong'', mark ''strike'']) = Inr (JStr ''~~**text**~~'')
   \<and> render_inline (text_node ''text'' [mark ''strike'', mark ''strong''])
       \<noteq> render_inline (text_node ''text'' [mark ''strong'', mark ''strike''])"
  by code_simp

text \<open>
  C9. A text node whose marks list contains a code mark, the marks before it being
  dictionaries, renders as the raw text with only the backticks escaped, between single
  backticks, whatever the other marks are: a link mark before or after the code mark
  produces no link.
\<close>

theorem code_mark_overrides:
  assumes "field node ''type'' = JStr ''text''" and "is_dict node"
    and "field node ''text'' = JStr t"
    and "field node ''marks'' = JList (before @ code # after)"
    and "\<forall>m \<in> set before. is_dict m"
    and "is_dict code" and "field code ''type'' = JStr ''code''"
  shows "render_inline node =
         Inr (JStr ([backtick] @ replace_char backtick [backslash, backtick] t @ [backtick]))"
proof -
  have ac: "any_code (before @ code # after) = Inr True"
    using assms(5-7) by (induction before) (simp_all add: dict_get_field)
  have "apply_marks (JStr t) (JList (before @ code # after)) =
        Inr ([backtick] @ replace_char backtick [backslash, backtick] t @ [backtick])"
    by (simp add: apply_marks_def ac code_span_def)
  moreover have "get_or node ''text'' (JStr []) = Inr (JStr t)"
    using assms(2,3) by (cases "t = []") (simp_all add: get_or_def dict_get_field py_or_def)
  moreover have "get_or node ''marks'' (JList []) = Inr (JList (before @ code # after))"
    using assms(2,4) by (simp add: get_or_def dict_get_field py_or_def)
  ultimately have "inline_text node =
        Inr (JStr ([backtick] @ replace_char backtick [backslash, backtick] t @ [backtick]))"
    by (simp add: inline_text_def)
  then show ?thesis
    using assms(1,2) by (simp add: render_inline.simps dict_get_field)
qed

theorem code_mark_overrides_witness:
  "render_inline (text_node ''a*b`''
     [link_mark ''http://x'', mark ''strong'', mark ''code'', link_mark ''http://y''])
   = Inr (JStr [CHR 0x60, CHR ''a'', CHR ''*'', CHR ''b'', CHR 0x5C, CHR 0x60, CHR 0x60])"
proof -
  let ?n = "text_node ''a*b`''
     [link_mark ''http://x'', mark ''strong'', mark ''code'', link_mark ''http://y'']"
  have "field ?n ''type'' = JStr ''text''" "is_dict ?n" "field ?n ''text'' = JStr ''a*b`''"
    "field ?n ''marks'' =
       JList ([link_mark ''http://x'', mark ''strong''] @ mark ''code'' # [link_mark ''http://y''])"
    "\<forall>m \<in> set [link_mark ''http://x'', mark ''strong'']. is_dict m"
    "is_dict (mark ''code'')" "field (mark ''code'') ''type'' = JStr ''code''"
    by (simp_all add: text_node_def field_def is_dict_def mark_def link_mark_def)
  from code_mark_overrides [OF this]
  show ?thesis by (simp add: replace_char_def backtick_def backslash_def)
qed

section \<open>Document unwrapping\<close>

text \<open>
  C4. The document is found by the first match among: the value itself is a dictionary of
  type \<^verbatim>\<open>doc\<close>; its \<^verbatim>\<open>body\<close> field is one; its \<^verbatim>\<open>description\<close> field is one; it
  has a \<^verbatim>\<open>content\<close> list and a \<^verbatim>\<open>version\<close> that is not null (then the value itself
  is the document). Otherwise, and for every value that is not a dictionary, no document is
  found, and then \<^verbatim>\<open>render_markdown\<close> returns the empty string and does not raise.
\<close>

theorem extract_doc_order:
  "(is_doc v \<longrightarrow> extract_doc v = Some v)
   \<and> (\<not> is_doc v \<and> is_doc (field v ''body'') \<longrightarrow> extract_doc v = Some (field v ''body''))
   \<and> (\<not> is_doc v \<and> \<not> is_doc (field v ''body'') \<and> is_doc (field v ''description'')
        \<longrightarrow> extract_doc v = Some (field v ''description''))
   \<and> (\<not> is_doc v \<and> \<not> is_doc (field v ''body'') \<and> \<not> is_doc (field v ''description'')
        \<and> is_list (field v ''content'') \<and> field v ''version'' \<noteq> JNull
        \<longrightarrow> extract_doc v = Some v)
   \<and> (\<not> is_doc v \<and> \<not> is_doc (field v ''body'') \<and> \<not> is_doc (field v ''description'')
        \<and> \<not> (is_list (field v ''content'') \<and> field v ''version'' \<noteq> JNull)
        \<longrightarrow> extract_doc v = None)
   \<and> (extract_doc v = None \<longrightarrow> render_markdown v = Inr [])"
  by (cases v) (auto simp: extract_doc_def is_doc_def field_def is_list_def render_markdown_def Let_def)

theorem extract_doc_order_witness:
  "extract_doc (elem ''doc'' []) = Some (elem ''doc'' [])
   \<and> extract_doc (JDict [(''body'', elem ''doc'' [plain ''b'']), (''description'', elem ''doc'' [])])
        = Some (elem ''doc'' [plain ''b''])
   \<and> extract_doc (JDict [(''description'', elem ''doc'' []), (''content'', JList []), (''version'', JInt 1)])
        = Some (elem ''doc'' [])
   \<and> extract_doc (JDict [(''content'', JList []), (''version'', JInt 1)])
        = Some (JDict [(''content'', JList []), (''version'', JInt 1)])
   \<and> extract_doc (JDict [(''content'', JList [])]) = None
   \<and> render_markdown (JDict [(''content'', JList [])]) = Inr []
   \<and> render_markdown JNull = Inr []"
  using extract_doc_order [of "elem ''doc'' []"]
    extract_doc_order [of "JDict [(''body'', elem ''doc'' [plain ''b'']), (''description'', elem ''doc'' [])]"]
    extract_doc_order [of "JDict [(''description'', elem ''doc'' []), (''content'', JList []), (''version'', JInt 1)]"]
    extract_doc_order [of "JDict [(''content'', JList []), (''version'', JInt 1)]"]
    extract_doc_order [of "JDict [(''content'', JList [])]"]
    extract_doc_order [of JNull]
  by (simp add: is_doc_def field_def elem_def is_list_def)

section \<open>Paragraphs\<close>

text \<open>
  C7. A paragraph whose content is inline nodes, a hard break, and inline nodes again
  (none of the others a hard break, each rendering to a string) renders as two lines: the
  text before the break with its trailing white space removed and two spaces appended,
  then the text after the break.
\<close>

theorem paragraph_hard_break:
  assumes "is_dict p" and "field p ''type'' = JStr ''paragraph''"
    and "field p ''content'' = JList (before @ hb # after)"
    and "is_dict hb" and "field hb ''type'' = JStr ''hardBreak''"
    and "list_all2 renders_to before bs"
    and "list_all2 renders_to after as"
  shows "render_block p lvl = Inr [JStr (rstrip (concat bs) @ ''  ''), JStr (concat as)]"
proof -
  have 1: "foldM paragraph_step ([], []) before = Inr ([], concat bs)"
    using paragraph_loop_run [OF assms(6), of "[]" "[]"] by simp
  have 2: "paragraph_step ([], concat bs) hb = Inr ([rstrip (concat bs) @ ''  ''], [])"
    using assms(4,5) by (simp add: paragraph_step_def dict_get_field)
  have 3: "foldM paragraph_step ([rstrip (concat bs) @ ''  ''], []) after
           = Inr ([rstrip (concat bs) @ ''  ''], concat as)"
    using paragraph_loop_run [OF assms(7), of "[rstrip (concat bs) @ ''  '']" "[]"] by simp
  have "foldM paragraph_step ([], []) (before @ hb # after)
        = Inr ([rstrip (concat bs) @ ''  ''], concat as)"
    by (simp add: foldM_append 1 2 3)
  then have "render_paragraph_lines p = Inr [rstrip (concat bs) @ ''  '', concat as]"
    using assms(1,3) by (simp add: render_paragraph_lines_def get_or_field py_or_def)
  then show ?thesis
    using assms(1,2) by (simp add: render_block.simps dict_get_field render_paragraph_def)
qed

theorem paragraph_hard_break_witness:
  "render_block (elem ''paragraph'' [plain ''a b '', JDict [(''type'', JStr ''hardBreak'')], plain ''c'']) 0
   = Inr [JStr ''a b  '', JStr ''c'']"
proof -
  let ?p = "elem ''paragraph'' [plain ''a b '', JDict [(''type'', JStr ''hardBreak'')], plain ''c'']"
  have r1: "render_inline (plain ''a b '') = Inr (JStr ''a b '')" by code_simp
  have r2: "render_inline (plain ''c'') = Inr (JStr ''c'')" by code_simp
  have "is_dict ?p" "field ?p ''type'' = JStr ''paragraph''"
    "field ?p ''content'' = JList ([plain ''a b ''] @ JDict [(''type'', JStr ''hardBreak'')] # [plain ''c''])"
    "is_dict (JDict [(''type'', JStr ''hardBreak'')])"
    "field (JDict [(''type'', JStr ''hardBreak'')]) ''type'' = JStr ''hardBreak''"
    "list_all2 renders_to [plain ''a b ''] [''a b '']"
    "list_all2 renders_to [plain ''c''] [''c'']"
    using r1 r2 by (simp_all add: elem_def plain_def is_dict_def field_def renders_to_def)
  from paragraph_hard_break [OF this, of 0]
  have "render_block ?p 0 = Inr [JStr (rstrip ''a b '' @ ''  ''), JStr ''c'']" by simp
  moreover have "rstrip ''a b '' = ''a b''" by code_simp
  ultimately show ?thesis by simp
qed

text \<open>
  C10. A paragraph with no content, or whose children all render to the empty string,
  renders to one empty line, not to no line; so a document of one such paragraph renders to
  the empty string and a document of two such paragraphs to two newlines.
\<close>

theorem empty_paragraph_one_line:
  assumes "empty_paragraph p" and "empty_paragraph q"
    and "is_doc d1" and "field d1 ''content'' = JList [p]"
    and "is_doc d2" and "field d2 ''content'' = JList [p, q]"
  shows "render_block p lvl = Inr [JStr []]
         \<and> render_markdown d1 = Inr []
         \<and> render_markdown d2 = Inr [newline, newline]"
proof -
  have d1: "is_dict d1" "extract_doc d1 = Some d1" "truthy d1"
    using assms(3) by (auto simp: is_doc_def is_dict_def extract_doc_def split: json.splits)
  have d2: "is_dict d2" "extract_doc d2 = Some d2" "truthy d2"
    using assms(5) by (auto simp: is_doc_def is_dict_def extract_doc_def split: json.splits)
  have j: "py_join [newline] [JStr []] = Inr []" by (simp add: py_join_def)
  have "render d1 = Inr []"
    using d1(1) assms(4) empty_paragraph_block [OF assms(1), of 0]
    by (simp add: render_def get_or_field py_or_def j)
  moreover have "render d2 = Inr [newline, newline]"
    using d2(1) assms(6) empty_paragraph_block [OF assms(1), of 0]
      empty_paragraph_block [OF assms(2), of 0]
    by (simp add: render_def get_or_field py_or_def j)
  ultimately show ?thesis
    using d1 d2 empty_paragraph_block [OF assms(1), of lvl] by (simp add: render_markdown_def)
qed

theorem empty_paragraph_one_line_witness:
  "render_block (elem ''paragraph'' []) 0 = Inr [JStr []]
   \<and> render_markdown (elem ''doc'' [elem ''paragraph'' []]) = Inr []
   \<and> render_markdown (elem ''doc'' [elem ''paragraph'' [], elem ''paragraph'' [plain []]])
       = Inr [CHR 0x0A, CHR 0x0A]"
proof -
  have e: "render_inline (plain []) = Inr (JStr [])" by code_simp
  have "empty_paragraph (elem ''paragraph'' [])" "empty_paragraph (elem ''paragraph'' [plain []])"
    "is_doc (elem ''doc'' [elem ''paragraph'' []])"
    "field (elem ''doc'' [elem ''paragraph'' []]) ''content'' = JList [elem ''paragraph'' []]"
    "is_doc (elem ''doc'' [elem ''paragraph'' [], elem ''paragraph'' [plain []]])"
    "field (elem ''doc'' [elem ''paragraph'' [], elem ''paragraph'' [plain []]]) ''content''
       = JList [elem ''paragraph'' [], elem ''paragraph'' [plain []]]"
    using e
    by (simp_all add: empty_paragraph_def elem_def is_dict_def field_def is_doc_def renders_to_def
          plain_def)
  from empty_paragraph_one_line [OF this, of 0]
  show ?thesis by (simp add: newline_def)
qed

section \<open>Ordered lists\<close>

text \<open>
  C6. A node of type \<^verbatim>\<open>orderedList\<close> whose \<^verbatim>\<open>attrs\<close> are absent or a dictionary
  and whose \<^verbatim>\<open>order\<close> is absent or an integer is numbered from \<^verbatim>\<open>attrs.order\<close>, from
  1 when it is absent, going up by one with each child: the node renders as its children
  in order, the child at position \<open>i\<close> rendered as an ordered item with the number
  \<open>start + i\<close> (or raises what the first failing child raises); and the first line of
  an ordered item rendered with the number \<open>n\<close> begins with the indentation, \<open>n\<close> and
  a full stop.
\<close>

theorem ordered_list_numbering:
  assumes "field l ''type'' = JStr ''orderedList''"
    and "order_attr l = Some start"
    and "field l ''content'' = JList items"
  shows "render_block l lvl =
           and_then (mapM (\<lambda>p. render_list_item (snd p) lvl True (start + int (fst p)))
                       (enumerate 0 items))
             (\<lambda>ls. Inr (concat ls))
         \<and> (\<forall>item n out. render_list_item item lvl True n = Inr out \<longrightarrow>
               (\<exists>rest more.
                  out = JStr (concat (replicate lvl ''  '') @ show_int n @ ''.'' @ rest) # more))"
proof -
  have d: "is_dict l" using assms(2) by (auto simp: order_attr_def is_dict_def split: json.splits)
  have "foldM (\<lambda>st item.
          case st of (lines, index) \<Rightarrow>
            and_then (render_list_item item lvl True index) (\<lambda>ls.
            Inr (lines @ ls, if True then index + 1 else index)))
      ([], start) items
   = and_then
       (mapM (\<lambda>p. render_list_item (snd p) lvl True (start + int (fst p))) (enumerate 0 items))
       (\<lambda>ls. Inr (concat ls, start + int (length items)))"
    using list_loop_enumerate [of lvl "[]" start 0 items] by simp
  then have "render_list l lvl True =
           and_then (mapM (\<lambda>p. render_list_item (snd p) lvl True (start + int (fst p)))
                       (enumerate 0 items))
             (\<lambda>ls. Inr (concat ls))"
    using d assms(3)
    by (auto simp: render_list.simps order_attr_start [OF assms(2)] get_or_field py_or_def
          and_then_assoc)
  moreover have "render_block l lvl = render_list l lvl True"
    using d assms(1) by (simp add: render_block.simps dict_get_field)
  ultimately show ?thesis using list_item_first_line by simp
qed

theorem ordered_list_numbering_witness:
  "render_block (elem_attrs ''orderedList'' [(''order'', JInt 5)]
      [elem ''listItem'' [elem ''paragraph'' [plain ''a'']],
       elem ''listItem'' [elem ''paragraph'' [plain ''b'']],
       elem ''listItem'' [elem ''paragraph'' [plain ''c'']]]) 0
   = Inr [JStr ''5. a'', JStr ''6. b'', JStr ''7. c'']
   \<and> render_block (elem ''orderedList''
      [elem ''listItem'' [elem ''paragraph'' [plain ''a'']],
       elem ''listItem'' [elem ''paragraph'' [plain ''b'']]]) 1
   = Inr [JStr ''  1. a'', JStr ''  2. b'']"
proof -
  let ?a = "elem ''listItem'' [elem ''paragraph'' [plain ''a'']]"
  let ?b = "elem ''listItem'' [elem ''paragraph'' [plain ''b'']]"
  let ?c = "elem ''listItem'' [elem ''paragraph'' [plain ''c'']]"
  let ?l = "elem_attrs ''orderedList'' [(''order'', JInt 5)] [?a, ?b, ?c]"
  let ?m = "elem ''orderedList'' [?a, ?b]"
  have 0: "field ?l ''type'' = JStr ''orderedList''" by (simp add: field_def elem_attrs_def)
  have 1: "order_attr ?l = Some 5" by (simp add: order_attr_def elem_attrs_def)
  have 2: "field ?l ''content'' = JList [?a, ?b, ?c]" by (simp add: field_def elem_attrs_def)
  have 3: "and_then (mapM (\<lambda>p. render_list_item (snd p) 0 True (5 + int (fst p)))
                       (enumerate 0 [?a, ?b, ?c]))
             (\<lambda>ls. Inr (concat ls))
           = Inr [JStr ''5. a'', JStr ''6. b'', JStr ''7. c'']"
    by code_simp
  have 4: "order_attr ?m = Some 1" by (simp add: order_attr_def elem_def)
  have 5: "field ?m ''content'' = JList [?a, ?b]" by (simp add: field_def elem_def)
  have 6: "and_then (mapM (\<lambda>p. render_list_item (snd p) 1 True (1 + int (fst p)))
                       (enumerate 0 [?a, ?b]))
             (\<lambda>ls. Inr (concat ls))
           = Inr [JStr ''  1. a'', JStr ''  2. b'']"
    by code_simp
  have 7: "field ?m ''type'' = JStr ''orderedList''" by (simp add: field_def elem_def)
  from ordered_list_numbering [OF 0 1 2, of 0] ordered_list_numbering [OF 7 4 5, of 1] 3 6
  show ?thesis by simp
qed

section \<open>Tables\<close>

text \<open>
  C5. A table of two rows in which some cell, in either row, is a \<^verbatim>\<open>tableHeader\<close>
  renders as three lines: the first row as a pipe line, a separator with one \<^verbatim>\<open>---\<close>
  for each column, the number of columns being the larger of the two cell counts, and the
  second row as a pipe line.
\<close>

theorem header_table_three_lines:
  assumes "is_dict t" and "field t ''type'' = JStr ''table''"
    and "field t ''content'' = JList [r1, r2]"
    and "is_dict r1" and "field r1 ''content'' = JList hs"
    and "is_dict r2" and "field r2 ''content'' = JList cs"
    and "list_all2 cell_renders hs H" and "list_all2 cell_renders cs C"
    and "\<exists>c \<in> set (hs @ cs). field c ''type'' = JStr ''tableHeader''"
  shows "render_block t lvl =
         Inr [JStr (pipe_line H (max (length hs) (length cs))),
              JStr (pipe_line (replicate (max (length hs) (length cs)) ''---'')
                      (max (length hs) (length cs))),
              JStr (pipe_line C (max (length hs) (length cs)))]"
proof -
  let ?n = "max (length hs) (length cs)"
  have lh: "length H = length hs" and lc: "length C = length cs"
    using assms(8,9) by (simp_all add: list_all2_lengthD)
  have c1: "get_or r1 ''content'' (JList []) = Inr (JList hs)"
    using assms(4,5) by (simp add: get_or_field py_or_def)
  have c2: "get_or r2 ''content'' (JList []) = Inr (JList cs)"
    using assms(6,7) by (simp add: get_or_field py_or_def)
  have hdr: "((\<exists>c \<in> set hs. field c ''type'' = JStr ''tableHeader'')
              \<or> (\<exists>c \<in> set cs. field c ''type'' = JStr ''tableHeader'')) = True"
    using assms(10) by auto
  have "render_table t = Inr (table_lines [H, C] True)"
    using assms(1,3)
    by (simp add: render_table.simps get_or_field py_or_def c1 c2
          cells_loop_run [OF assms(8)] cells_loop_run [OF assms(9)] hdr)
  moreover have "table_lines [H, C] True =
      [pipe_line H ?n, pipe_line (replicate ?n ''---'') ?n, pipe_line C ?n]"
    by (simp add: table_lines_def lh lc max.commute Let_def)
  ultimately show ?thesis
    using assms(1,2) by (simp add: render_block.simps dict_get_field)
qed

theorem header_table_three_lines_witness:
  "render_block (elem ''table''
      [elem ''tableRow'' [elem ''tableHeader'' [elem ''paragraph'' [plain ''a'']],
                          elem ''tableHeader'' [elem ''paragraph'' [plain ''b'']]],
       elem ''tableRow'' [elem ''tableCell'' [elem ''paragraph'' [plain ''c'']]]]) 0
   = Inr [JStr ''| a | b |'', JStr ''| --- | --- |'', JStr ''| c |  |'']"
proof -
  let ?a = "elem ''tableHeader'' [elem ''paragraph'' [plain ''a'']]"
  let ?b = "elem ''tableHeader'' [elem ''paragraph'' [plain ''b'']]"
  let ?c = "elem ''tableCell'' [elem ''paragraph'' [plain ''c'']]"
  let ?r1 = "elem ''tableRow'' [?a, ?b]"
  let ?r2 = "elem ''tableRow'' [?c]"
  let ?t = "elem ''table'' [?r1, ?r2]"
  have a: "cell_text ?a = Inr ''a''" by code_simp
  have b: "cell_text ?b = Inr ''b''" by code_simp
  have c: "cell_text ?c = Inr ''c''" by code_simp
  have "is_dict ?t" "field ?t ''type'' = JStr ''table''" "field ?t ''content'' = JList [?r1, ?r2]"
    "is_dict ?r1" "field ?r1 ''content'' = JList [?a, ?b]"
    "is_dict ?r2" "field ?r2 ''content'' = JList [?c]"
    "list_all2 cell_renders [?a, ?b] [''a'', ''b'']" "list_all2 cell_renders [?c] [''c'']"
    "\<exists>x \<in> set ([?a, ?b] @ [?c]). field x ''type'' = JStr ''tableHeader''"
    using a b c by (simp_all add: cell_renders_def is_dict_def field_def elem_def)
  from header_table_three_lines [OF this, of 0]
  have "render_block ?t 0 =
         Inr [JStr (pipe_line [''a'', ''b''] (Suc (Suc 0))),
              JStr (pipe_line [''---'', ''---''] (Suc (Suc 0))),
              JStr (pipe_line [''c''] (Suc (Suc 0)))]"
    by simp
  moreover have "pipe_line [''a'', ''b''] (Suc (Suc 0)) = ''| a | b |''" by code_simp
  moreover have "pipe_line [''---'', ''---''] (Suc (Suc 0)) = ''| --- | --- |''" by code_simp
  moreover have "pipe_line [''c''] (Suc (Suc 0)) = ''| c |  |''" by code_simp
  ultimately show ?thesis by simp
qed

text \<open>
  C3 fails on the code. A table without any \<^verbatim>\<open>tableHeader\<close> cell gets its first row
  twice: the first row is written before the loop, and the loop starts again at row 0. Two
  rows give three lines, one row gives two.
\<close>

theorem headerless_table_repeats_first_row:
  "render_block (elem ''table''
      [elem ''tableRow'' [elem ''tableCell'' [elem ''paragraph'' [plain ''a'']]],
       elem ''tableRow'' [elem ''tableCell'' [elem ''paragraph'' [plain ''b'']]]]) 0
   = Inr [JStr ''| a |'', JStr ''| a |'', JStr ''| b |'']
   \<and> render_block (elem ''table''
      [elem ''tableRow'' [elem ''tableCell'' [elem ''paragraph'' [plain ''a'']]]]) 0
   = Inr [JStr ''| a |'', JStr ''| a |'']"
  by code_simp

section \<open>Malformed input\<close>

text \<open>
  C2 fails on the code. A heading whose level is not numeric raises ValueError in
  \<^verbatim>\<open>int(level)\<close>; a heading whose \<^verbatim>\<open>attrs\<close> is null raises AttributeError, as
  \<^verbatim>\<open>node.get("attrs", {})\<close> returns the null; an entry of a content list that is not
  a dictionary raises AttributeError in \<^verbatim>\<open>node.get("type")\<close>.
\<close>

theorem render_markdown_raises:
  "render_markdown (elem ''doc''
      [JDict [(''type'', JStr ''heading''), (''attrs'', JDict [(''level'', JStr ''high'')])]])
     = Inl ValueError
   \<and> render_markdown (elem ''doc'' [JDict [(''type'', JStr ''heading''), (''attrs'', JNull)]])
     = Inl AttributeError
   \<and> render_markdown (elem ''doc'' [JStr ''x'']) = Inl AttributeError"
  by code_simp

end
